theory Spec2Isabelle
  imports Main
begin

section \<open>JavaScript strings\<close>

text \<open>
  A JavaScript string is a sequence of UTF-16 code units. A code unit is written here as
  its high byte and its low byte: \<open>CodeUnit (CHR 0x21) (CHR 0x2A)\<close> is U+212A. The
  literals of the program are ASCII; \<open>str\<close> turns an ASCII literal into a string.
\<close>

datatype code_unit = CodeUnit char char

type_synonym js_string = "code_unit list"

definition str :: "string \<Rightarrow> js_string" where
  "str s = map (CodeUnit (CHR 0x00)) s"

definition lowerChar :: "char \<Rightarrow> char" where
  "lowerChar c =
     (let n = (of_char c :: nat) in if 65 \<le> n \<and> n \<le> 90 then char_of (n + 32) else c)"

text \<open>
  \<open>String.prototype.toLowerCase\<close>. The program searches the lower-cased string for
  ASCII keywords only, so the ASCII code units of the result are what matters. They come
  from exactly three sources: an ASCII code unit, of which the letters \<open>A\<close>..\<open>Z\<close> are
  folded; U+212A (KELVIN SIGN), whose lower case is \<open>k\<close>; and U+0130 (LATIN CAPITAL
  LETTER I WITH DOT ABOVE), whose lower case is \<open>i\<close> followed by U+0307. The lower case
  of every other code unit consists of non-ASCII code units; the model keeps such a code
  unit as it is, so that it stands for its lower case.
\<close>

fun lowerUnit :: "code_unit \<Rightarrow> js_string" where
  "lowerUnit (CodeUnit hi lo) =
     (if hi = CHR 0x00 then [CodeUnit hi (lowerChar lo)]
      else if hi = CHR 0x21 \<and> lo = CHR 0x2A then str ''k''
      else if hi = CHR 0x01 \<and> lo = CHR 0x30 then str ''i'' @ [CodeUnit (CHR 0x03) (CHR 0x07)]
      else [CodeUnit hi lo])"

definition toLowerCase :: "js_string \<Rightarrow> js_string" where
  "toLowerCase s = concat (map lowerUnit s)"

text \<open>
  The code units that \<open>String.prototype.trim\<close> strips: the white space and line
  terminator code points of ECMAScript, that is TAB, LF, VT, FF, CR, SPACE, U+00A0,
  U+1680, U+2000..U+200A, U+2028, U+2029, U+202F, U+205F, U+3000 and U+FEFF.
\<close>

definition whiteSpace :: "code_unit list" where
  "whiteSpace =
     [CodeUnit (CHR 0x00) (CHR 0x09), CodeUnit (CHR 0x00) (CHR 0x0A),
      CodeUnit (CHR 0x00) (CHR 0x0B), CodeUnit (CHR 0x00) (CHR 0x0C),
      CodeUnit (CHR 0x00) (CHR 0x0D), CodeUnit (CHR 0x00) (CHR 0x20),
      CodeUnit (CHR 0x00) (CHR 0xA0), CodeUnit (CHR 0x16) (CHR 0x80),
      CodeUnit (CHR 0x20) (CHR 0x00), CodeUnit (CHR 0x20) (CHR 0x01),
      CodeUnit (CHR 0x20) (CHR 0x02), CodeUnit (CHR 0x20) (CHR 0x03),
      CodeUnit (CHR 0x20) (CHR 0x04), CodeUnit (CHR 0x20) (CHR 0x05),
      CodeUnit (CHR 0x20) (CHR 0x06), CodeUnit (CHR 0x20) (CHR 0x07),
      CodeUnit (CHR 0x20) (CHR 0x08), CodeUnit (CHR 0x20) (CHR 0x09),
      CodeUnit (CHR 0x20) (CHR 0x0A), CodeUnit (CHR 0x20) (CHR 0x28),
      CodeUnit (CHR 0x20) (CHR 0x29), CodeUnit (CHR 0x20) (CHR 0x2F),
      CodeUnit (CHR 0x20) (CHR 0x5F), CodeUnit (CHR 0x30) (CHR 0x00),
      CodeUnit (CHR 0xFE) (CHR 0xFF)]"

definition isWhiteSpace :: "code_unit \<Rightarrow> bool" where
  "isWhiteSpace u = (u \<in> set whiteSpace)"

definition trim :: "js_string \<Rightarrow> js_string" where
  "trim s = rev (dropWhile isWhiteSpace (rev (dropWhile isWhiteSpace s)))"

text \<open>\<open>startsWith s k\<close>: the string \<open>s\<close> begins with \<open>k\<close>.\<close>

fun startsWith :: "js_string \<Rightarrow> js_string \<Rightarrow> bool" where
  "startsWith s [] = True"
| "startsWith [] (k # ks) = False"
| "startsWith (c # cs) (k # ks) = (c = k \<and> startsWith cs ks)"

text \<open>\<open>String.prototype.includes\<close>: \<open>k\<close> occurs in \<open>s\<close> as a contiguous substring.\<close>

fun js_includes :: "js_string \<Rightarrow> js_string \<Rightarrow> bool" where
  "js_includes [] k = (k = [])"
| "js_includes (c # cs) k = (startsWith (c # cs) k \<or> js_includes cs k)"

text \<open>\<open>String.prototype.split\<close> with a separator of one code unit.\<close>

fun split_on :: "code_unit \<Rightarrow> js_string \<Rightarrow> js_string list" where
  "split_on sep [] = [[]]"
| "split_on sep (c # cs) =
     (if c = sep then [] # split_on sep cs
      else (case split_on sep cs of
              [] \<Rightarrow> [[c]]
            | w # ws \<Rightarrow> (c # w) # ws))"

text \<open>Array indexing: \<open>undefined\<close> (here \<open>None\<close>) out of range.\<close>

fun index_opt :: "'a list \<Rightarrow> nat \<Rightarrow> 'a option" where
  "index_opt [] i = None"
| "index_opt (x # xs) 0 = Some x"
| "index_opt (x # xs) (Suc i) = index_opt xs i"

text \<open>
  An optional string is truthy when it is present and not empty; this is the test that
  \<open>if (x)\<close> and \<open>x && ...\<close> make on a value of type \<open>string | undefined\<close>.
\<close>

fun truthy :: "js_string option \<Rightarrow> bool" where
  "truthy None = False"
| "truthy (Some s) = (s \<noteq> [])"

text \<open>Interpolation of a value of type \<open>string | undefined\<close> in a template literal.\<close>

fun interpolate :: "js_string option \<Rightarrow> js_string" where
  "interpolate None = str ''undefined''"
| "interpolate (Some s) = s"

section \<open>JavaScript values, as far as the program observes them\<close>

text \<open>The only exception that the operations of the language modelled here raise.\<close>

datatype js_exception = TypeError

text \<open>
  A property value: a string, or any other value. Of a value that is not a string the
  program observes that it is never \<open>===\<close> to a string, that it has no method
  \<open>toLowerCase\<close>, and its conversion to a string in a template literal, which gives a
  string or raises \<open>TypeError\<close> (\<open>None\<close>; a symbol, an object with no usable
  \<open>toString\<close>).
\<close>

datatype js_value = VStr js_string | VOther "js_string option"

definition js_undefined :: js_value where
  "js_undefined = VOther (Some (str ''undefined''))"

text \<open>The conversion that \<open>${v}\<close> makes in a template literal.\<close>

fun templateString :: "js_value \<Rightarrow> js_exception + js_string" where
  "templateString (VStr s) = Inr s"
| "templateString (VOther None) = Inl TypeError"
| "templateString (VOther (Some s)) = Inr s"

text \<open>
  A value of type \<open>unknown\<close>, as caught by a \<open>catch\<close> clause:
  \<^item> \<open>NonObject c\<close>: a value on which \<open>error && typeof error === 'object'\<close> is false
    (a primitive, \<open>null\<close>, a function);
  \<^item> \<open>ErrorObject m ps\<close>: an object that is \<open>instanceof Error\<close>, with the value \<open>m\<close>
    of its \<open>message\<close> and the properties \<open>ps\<close> set on it besides the built-in ones;
  \<^item> \<open>PlainObject c ps\<close>: any other object, with properties \<open>ps\<close>.

  In the first and the last case \<open>c\<close> is what \<open>String(error)\<close> does: it gives a string,
  or it raises \<open>TypeError\<close> (\<open>None\<close>), as on an object created by
  \<open>Object.create(null)\<close>, which has no \<open>toString\<close>.
\<close>

datatype thrown =
    NonObject "js_string option"
  | ErrorObject js_value "(string \<times> js_value) list"
  | PlainObject "js_string option" "(string \<times> js_value) list"

text \<open>\<open>error && typeof error === 'object'\<close>\<close>

fun isObject :: "thrown \<Rightarrow> bool" where
  "isObject (NonObject c) = False"
| "isObject (ErrorObject m ps) = True"
| "isObject (PlainObject c ps) = True"

fun properties :: "thrown \<Rightarrow> (string \<times> js_value) list" where
  "properties (NonObject c) = []"
| "properties (ErrorObject m ps) = ps"
| "properties (PlainObject c ps) = ps"

text \<open>
  \<open>k in error\<close>, for the property names the program asks for; the program evaluates it
  on objects only.
\<close>

definition js_in :: "string \<Rightarrow> thrown \<Rightarrow> bool" where
  "js_in k e = (k \<in> set (map fst (properties e)))"

text \<open>\<open>error.k\<close>: \<open>undefined\<close> when the property is missing.\<close>

definition getProp :: "thrown \<Rightarrow> string \<Rightarrow> js_value" where
  "getProp e k = (case map_of (properties e) k of None \<Rightarrow> js_undefined | Some v \<Rightarrow> v)"

text \<open>\<open>new Error(message)\<close>\<close>

definition newError :: "js_string \<Rightarrow> thrown" where
  "newError m = ErrorObject (VStr m) []"

section \<open>The error classifier (services/errorHandler)\<close>

datatype ErrorType =
    API_KEY_INVALID
  | RATE_LIMIT_EXCEEDED
  | QUOTA_EXCEEDED
  | NETWORK_ERROR
  | SERVICE_UNAVAILABLE
  | CONTENT_BLOCKED
  | UNKNOWN_ERROR
  | API_NOT_CONFIGURED

text \<open>The string value of each member of the enum.\<close>

fun ErrorType_value :: "ErrorType \<Rightarrow> js_string" where
  "ErrorType_value API_KEY_INVALID = str ''API_KEY_INVALID''"
| "ErrorType_value RATE_LIMIT_EXCEEDED = str ''RATE_LIMIT_EXCEEDED''"
| "ErrorType_value QUOTA_EXCEEDED = str ''QUOTA_EXCEEDED''"
| "ErrorType_value NETWORK_ERROR = str ''NETWORK_ERROR''"
| "ErrorType_value SERVICE_UNAVAILABLE = str ''SERVICE_UNAVAILABLE''"
| "ErrorType_value CONTENT_BLOCKED = str ''CONTENT_BLOCKED''"
| "ErrorType_value UNKNOWN_ERROR = str ''UNKNOWN_ERROR''"
| "ErrorType_value API_NOT_CONFIGURED = str ''API_NOT_CONFIGURED''"

text \<open>
  The object literal \<open>{ type, message, userFriendlyMessage }\<close> of interface \<open>ApiError\<close>.
\<close>

definition ApiError :: "ErrorType \<Rightarrow> js_string \<Rightarrow> js_string \<Rightarrow> thrown" where
  "ApiError t m u =
     PlainObject (Some (str ''[object Object]''))
       [(''type'', VStr (ErrorType_value t)),
        (''message'', VStr m),
        (''userFriendlyMessage'', VStr u)]"

text \<open>
  The first two statements of the classifier's second path,
  \<open>errorMessage = error instanceof Error ? error.message : String(error)\<close> and
  \<open>errorString = errorMessage.toLowerCase()\<close>, up to the lower-casing itself. They
  raise \<open>TypeError\<close> when \<open>String(error)\<close> does, and when the \<open>message\<close> of an
  \<open>Error\<close> is not a string, which has no method \<open>toLowerCase\<close>. Otherwise
  \<open>errorMessage\<close> is a string.
\<close>

fun errorMessageOf :: "thrown \<Rightarrow> js_exception + js_string" where
  "errorMessageOf (ErrorObject (VStr m) ps) = Inr m"
| "errorMessageOf (ErrorObject (VOther c) ps) = Inl TypeError"
| "errorMessageOf (NonObject None) = Inl TypeError"
| "errorMessageOf (NonObject (Some s)) = Inr s"
| "errorMessageOf (PlainObject None ps) = Inl TypeError"
| "errorMessageOf (PlainObject (Some s) ps) = Inr s"

definition isApiKeyError :: "js_string \<Rightarrow> bool" where
  "isApiKeyError errorString =
     (js_includes errorString (str ''api key'') \<or>
      js_includes errorString (str ''invalid api key'') \<or>
      js_includes errorString (str ''unauthorized'') \<or>
      js_includes errorString (str ''401'') \<or>
      js_includes errorString (str ''403'') \<or>
      js_includes errorString (str ''authentication'') \<or>
      js_includes errorString (str ''permission denied''))"

definition isRateLimitError :: "js_string \<Rightarrow> bool" where
  "isRateLimitError errorString =
     (js_includes errorString (str ''rate limit'') \<or>
      js_includes errorString (str ''429'') \<or>
      js_includes errorString (str ''too many requests'') \<or>
      js_includes errorString (str ''request rate''))"

definition isQuotaError :: "js_string \<Rightarrow> bool" where
  "isQuotaError errorString =
     (js_includes errorString (str ''quota'') \<or>
      js_includes errorString (str ''quota exceeded'') \<or>
      js_includes errorString (str ''billing'') \<or>
      js_includes errorString (str ''payment'') \<or>
      js_includes errorString (str ''resource exhausted''))"

definition isNetworkError :: "js_string \<Rightarrow> bool" where
  "isNetworkError errorString =
     (js_includes errorString (str ''network'') \<or>
      js_includes errorString (str ''fetch'') \<or>
      js_includes errorString (str ''connection'') \<or>
      js_includes errorString (str ''timeout'') \<or>
      js_includes errorString (str ''econnrefused'') \<or>
      js_includes errorString (str ''enotfound''))"

definition isServiceUnavailableError :: "js_string \<Rightarrow> bool" where
  "isServiceUnavailableError errorString =
     (js_includes errorString (str ''503'') \<or>
      js_includes errorString (str ''service unavailable'') \<or>
      js_includes errorString (str ''temporarily unavailable'') \<or>
      js_includes errorString (str ''maintenance''))"

definition isContentBlockedError :: "js_string \<Rightarrow> bool" where
  "isContentBlockedError errorString =
     (js_includes errorString (str ''blocked'') \<or>
      js_includes errorString (str ''safety'') \<or>
      js_includes errorString (str ''content policy'') \<or>
      js_includes errorString (str ''not allowed''))"

definition msgApiKeyInvalid :: js_string where
  "msgApiKeyInvalid =
     str (''API key is invalid or has been revoked. Please check your API_KEY in the .env file and ensure it'' @
          [CHR 0x27] @ ''s correct.'')"

definition msgRateLimit :: js_string where
  "msgRateLimit =
     str ''Rate limit exceeded. Please wait a few moments and try again. Too many requests were made in a short time.''"

definition msgQuota :: js_string where
  "msgQuota =
     str ''API quota has been exceeded. Your API key has reached its usage limit. Please check your billing and quota limits, or wait until the quota resets.''"

definition msgNetwork :: js_string where
  "msgNetwork =
     str ''Network error. Please check your internet connection and try again. If the problem persists, the API service may be temporarily unavailable.''"

definition msgServiceUnavailable :: js_string where
  "msgServiceUnavailable =
     str ''Service is temporarily unavailable. The API service is down or under maintenance. Please try again later.''"

definition msgContentBlocked :: js_string where
  "msgContentBlocked =
     str (''Request blocked. The content violates the API'' @ [CHR 0x27] @
          ''s safety policies. Please try rephrasing your request.'')"

definition msgUnknown :: "js_string \<Rightarrow> js_string" where
  "msgUnknown errorMessage =
     str ''An unexpected error occurred: '' @ errorMessage @
     str ''. Please try again or contact support if the issue persists.''"

text \<open>The test \<open>'type' in error && 'userFriendlyMessage' in error\<close> on an object.\<close>

definition isParsedError :: "thrown \<Rightarrow> bool" where
  "isParsedError e = (isObject e \<and> js_in ''type'' e \<and> js_in ''userFriendlyMessage'' e)"

definition parseApiError :: "thrown \<Rightarrow> js_exception + thrown" where
  "parseApiError e =
     (if isParsedError e then Inr e
      else
        (case errorMessageOf e of
           Inl x \<Rightarrow> Inl x
         | Inr errorMessage \<Rightarrow>
             let errorString = toLowerCase errorMessage
             in if isApiKeyError errorString then
                  Inr (ApiError API_KEY_INVALID errorMessage msgApiKeyInvalid)
                else if isRateLimitError errorString then
                  Inr (ApiError RATE_LIMIT_EXCEEDED errorMessage msgRateLimit)
                else if isQuotaError errorString then
                  Inr (ApiError QUOTA_EXCEEDED errorMessage msgQuota)
                else if isNetworkError errorString then
                  Inr (ApiError NETWORK_ERROR errorMessage msgNetwork)
                else if isServiceUnavailableError errorString then
                  Inr (ApiError SERVICE_UNAVAILABLE errorMessage msgServiceUnavailable)
                else if isContentBlockedError errorString then
                  Inr (ApiError CONTENT_BLOCKED errorMessage msgContentBlocked)
                else
                  Inr (ApiError UNKNOWN_ERROR errorMessage (msgUnknown errorMessage))))"

text \<open>\<open>createApiError\<close>: an \<open>Error\<close> with the two extra fields set on it.\<close>

definition createApiError :: "ErrorType \<Rightarrow> js_string \<Rightarrow> js_string \<Rightarrow> thrown" where
  "createApiError t m u =
     ErrorObject (VStr m)
       [(''type'', VStr (ErrorType_value t)), (''userFriendlyMessage'', VStr u)]"

definition getUserFriendlyErrorMessage :: "thrown \<Rightarrow> js_exception + js_value" where
  "getUserFriendlyErrorMessage e =
     (if isObject e \<and> js_in ''userFriendlyMessage'' e then
        Inr (getProp e ''userFriendlyMessage'')
      else
        (case parseApiError e of
           Inl x \<Rightarrow> Inl x
         | Inr apiError \<Rightarrow> Inr (getProp apiError ''userFriendlyMessage'')))"

definition isErrorType :: "thrown \<Rightarrow> ErrorType \<Rightarrow> js_exception + bool" where
  "isErrorType e t =
     (if isObject e \<and> js_in ''type'' e then
        Inr (getProp e ''type'' = VStr (ErrorType_value t))
      else
        (case parseApiError e of
           Inl x \<Rightarrow> Inl x
         | Inr apiError \<Rightarrow> Inr (getProp apiError ''type'' = VStr (ErrorType_value t))))"

section \<open>The response envelope\<close>

text \<open>
  The fields of the SDK's \<open>GenerateContentResponse\<close> that the program reads. Each
  optional field is an \<open>option\<close>: \<open>None\<close> is \<open>undefined\<close>. The accessor
  \<open>response.text\<close> belongs to the SDK; it is taken as given with the envelope.
\<close>

record Blob =
  blob_data :: "js_string option"
  blob_mimeType :: "js_string option"

record Part =
  part_inlineData :: "Blob option"
  part_text :: "js_string option"

record Content =
  content_parts :: "Part list option"

record Candidate =
  cand_content :: "Content option"
  cand_finishReason :: "js_string option"

record PromptFeedback =
  pf_blockReason :: "js_string option"
  pf_blockReasonMessage :: "js_string option"

record GenerateContentResponse =
  resp_candidates :: "Candidate list option"
  resp_promptFeedback :: "PromptFeedback option"
  resp_text :: "js_string option"

text \<open>\<open>response.candidates?.[0]\<close>\<close>

definition firstCandidate :: "GenerateContentResponse \<Rightarrow> Candidate option" where
  "firstCandidate response =
     (case resp_candidates response of None \<Rightarrow> None | Some cs \<Rightarrow> index_opt cs 0)"

text \<open>\<open>response.candidates?.[0]?.content?.parts || []\<close>\<close>

definition firstParts :: "GenerateContentResponse \<Rightarrow> Part list" where
  "firstParts response =
     (case firstCandidate response of
        None \<Rightarrow> []
      | Some c \<Rightarrow>
          (case cand_content c of
             None \<Rightarrow> []
           | Some ct \<Rightarrow> (case content_parts ct of None \<Rightarrow> [] | Some ps \<Rightarrow> ps)))"

text \<open>\<open>response.candidates?.[0]?.finishReason\<close>\<close>

definition firstFinishReason :: "GenerateContentResponse \<Rightarrow> js_string option" where
  "firstFinishReason response =
     (case firstCandidate response of None \<Rightarrow> None | Some c \<Rightarrow> cand_finishReason c)"

text \<open>\<open>response.promptFeedback?.blockReason\<close>\<close>

definition blockReasonOf :: "GenerateContentResponse \<Rightarrow> js_string option" where
  "blockReasonOf response =
     (case resp_promptFeedback response of None \<Rightarrow> None | Some pf \<Rightarrow> pf_blockReason pf)"

definition blockReasonMessageOf :: "GenerateContentResponse \<Rightarrow> js_string option" where
  "blockReasonMessageOf response =
     (case resp_promptFeedback response of
        None \<Rightarrow> None
      | Some pf \<Rightarrow> pf_blockReasonMessage pf)"

section \<open>The response parser and the generation client (services/geminiService)\<close>

text \<open>The \<open>for\<close> loop of \<open>processImageResponse\<close>: the first part that has inline data.\<close>

fun firstInlineData :: "Part list \<Rightarrow> Blob option" where
  "firstInlineData [] = None"
| "firstInlineData (p # ps) =
     (case part_inlineData p of Some b \<Rightarrow> Some b | None \<Rightarrow> firstInlineData ps)"

definition dataUri :: "Blob \<Rightarrow> js_string" where
  "dataUri b =
     str ''data:'' @ interpolate (blob_mimeType b) @ str '';base64,'' @
     interpolate (blob_data b)"

definition doubleQuote :: js_string where
  "doubleQuote = str [CHR 0x22]"

definition msgNoImage :: js_string where
  "msgNoImage =
     str ''The model was unable to generate an image for this prompt. Please try rephrasing your request.''"

definition msgNoImageData :: js_string where
  "msgNoImageData =
     str ''No image data found in response. The model may have failed to generate an image for the given prompt.''"

definition processImageResponse :: "GenerateContentResponse \<Rightarrow> thrown + js_string" where
  "processImageResponse response =
     (case firstInlineData (firstParts response) of
        Some b \<Rightarrow> Inr (dataUri b)
      | None \<Rightarrow>
          if truthy (blockReasonOf response) then
            Inl (newError
              (str ''Request blocked due to '' @ interpolate (blockReasonOf response) @ str ''.'' @
               (if truthy (blockReasonMessageOf response)
                then str '' '' @ interpolate (blockReasonMessageOf response) else [])))
          else
            let finishReason = firstFinishReason response in
            if truthy finishReason \<and> finishReason \<noteq> Some (str ''STOP'') then
              if finishReason = Some (str ''NO_IMAGE'') then
                (case resp_text response of
                   None \<Rightarrow> Inl (newError msgNoImage)
                 | Some textResponse \<Rightarrow>
                     if textResponse \<noteq> [] then
                       Inl (newError
                         (str ''Model provided an explanation instead of an image: '' @
                          doubleQuote @ trim textResponse @ doubleQuote))
                     else Inl (newError msgNoImage))
              else
                Inl (newError
                  (str ''Image generation stopped unexpectedly. Reason: '' @
                   interpolate finishReason @ str ''.''))
            else
              (case resp_text response of
                 None \<Rightarrow> Inl (newError msgNoImageData)
               | Some textResponse \<Rightarrow>
                   if textResponse \<noteq> [] then
                     Inl (newError
                       (str ''Model returned a text explanation instead of an image: '' @
                        doubleQuote @ trim textResponse @ doubleQuote))
                   else Inl (newError msgNoImageData)))"

text \<open>
  The client object. The module creates it once, from the environment variable
  \<open>API_KEY\<close>, only when that variable is set and not empty.
\<close>

record GoogleGenAI =
  apiKey :: js_string

definition ai :: "js_string option \<Rightarrow> GoogleGenAI option" where
  "ai API_KEY = (if truthy API_KEY then Some \<lparr>apiKey = interpolate API_KEY\<rparr> else None)"

definition isApiKeyConfigured :: "js_string option \<Rightarrow> bool" where
  "isApiKeyConfigured API_KEY = (ai API_KEY \<noteq> None)"

definition msgNotConfigured :: js_string where
  "msgNotConfigured =
     str ''Gemini API key not configured. Please set the API_KEY environment variable.''"

definition ensureAi :: "GoogleGenAI option \<Rightarrow> thrown + GoogleGenAI" where
  "ensureAi client =
     (case client of None \<Rightarrow> Inl (newError msgNotConfigured) | Some a \<Rightarrow> Inr a)"

record Chat =
  chat_client :: GoogleGenAI
  chat_model :: js_string

definition createChat :: "GoogleGenAI option \<Rightarrow> thrown + Chat" where
  "createChat client =
     (case ensureAi client of
        Inl e \<Rightarrow> Inl e
      | Inr aiInstance \<Rightarrow> Inr \<lparr>chat_client = aiInstance, chat_model = str ''gemini-2.5-flash''\<rparr>)"

text \<open>
  A file chosen by the user: its mime type and the data URL that \<open>FileReader\<close> reads
  from it.
\<close>

record File =
  file_type :: js_string
  file_dataURL :: js_string

definition fileToGenerativePart :: "File \<Rightarrow> Part" where
  "fileToGenerativePart file =
     \<lparr>part_inlineData =
        Some \<lparr>blob_data = index_opt (split_on (CodeUnit (CHR 0x00) (CHR '','')) (file_dataURL file)) 1,
              blob_mimeType = Some (file_type file)\<rparr>,
      part_text = None\<rparr>"

text \<open>
  The remote service. A request to it either is rejected with a thrown value or resolves
  to a response envelope; the service is a parameter of the model. Every request issued is
  appended to a log, which the functions thread through.
\<close>

datatype Contents = PromptContents js_string | PartsContents "Part list"

record GenerateContentParameters =
  req_model :: js_string
  req_contents :: Contents
  req_responseModalities :: "js_string list"

datatype Request =
    GenerateContent GoogleGenAI GenerateContentParameters
  | SendMessage Chat js_string

type_synonym Remote = "Request \<Rightarrow> thrown + GenerateContentResponse"

definition callRemote ::
  "Remote \<Rightarrow> Request \<Rightarrow> Request list \<Rightarrow> (thrown + GenerateContentResponse) \<times> Request list" where
  "callRemote remote req log = (remote req, log @ [req])"

definition generateImage ::
  "GoogleGenAI option \<Rightarrow> Remote \<Rightarrow> js_string \<Rightarrow> Request list \<Rightarrow>
     (thrown + js_string) \<times> Request list" where
  "generateImage client remote prompt log =
     (case ensureAi client of
        Inl e \<Rightarrow> (Inl e, log)
      | Inr aiInstance \<Rightarrow>
          (case callRemote remote
                  (GenerateContent aiInstance
                     \<lparr>req_model = str ''gemini-2.5-flash-image'',
                      req_contents = PromptContents prompt,
                      req_responseModalities = [str ''IMAGE'']\<rparr>) log of
             (Inl e, log') \<Rightarrow> (Inl e, log')
           | (Inr response, log') \<Rightarrow> (processImageResponse response, log')))"

definition editImage ::
  "GoogleGenAI option \<Rightarrow> Remote \<Rightarrow> js_string \<Rightarrow> File \<Rightarrow> Request list \<Rightarrow>
     (thrown + js_string) \<times> Request list" where
  "editImage client remote prompt img log =
     (case ensureAi client of
        Inl e \<Rightarrow> (Inl e, log)
      | Inr aiInstance \<Rightarrow>
          let imagePart = fileToGenerativePart img in
          (case callRemote remote
                  (GenerateContent aiInstance
                     \<lparr>req_model = str ''gemini-2.5-flash-image'',
                      req_contents =
                        PartsContents
                          [imagePart, \<lparr>part_inlineData = None, part_text = Some prompt\<rparr>],
                      req_responseModalities = [str ''IMAGE'']\<rparr>) log of
             (Inl e, log') \<Rightarrow> (Inl e, log')
           | (Inr response, log') \<Rightarrow> (processImageResponse response, log')))"

section \<open>The two conversations (components/ImageStudio, components/Chatbot)\<close>

text \<open>
  Each handler is modelled as one function from the component's state at the moment of
  the submission to its state once the request has settled; the state updates are applied
  in the order in which the handler makes them. The clock and \<open>URL.createObjectURL\<close>
  belong to the browser and are parameters, indexed by the number of the call within the
  handler. When a statement of a \<open>catch\<close> block raises an exception itself, the rest
  of the block is skipped and the \<open>finally\<close> block still runs; the exception leaves
  the handler and changes nothing else in the state.
\<close>

datatype Role = User | Model

record ImageStudioMessage =
  msg_id :: js_string
  msg_role :: Role
  msg_text :: "js_string option"
  msg_imageUrl :: "js_string option"
  msg_originalImageUrl :: "js_string option"

record ChatMessage =
  cm_role :: Role
  cm_text :: "js_string option"

record ImageStudioState =
  st_messages :: "ImageStudioMessage list"
  st_prompt :: js_string
  st_imageFile :: "File option"
  st_isLoading :: bool
  st_error :: "js_string option"
  st_isApiReady :: bool

record Browser =
  dateNow :: "nat \<Rightarrow> nat"
  createObjectURL :: "nat \<Rightarrow> File \<Rightarrow> js_string"

text \<open>\<open>Number.prototype.toString\<close> on a natural number: its decimal digits.\<close>

fun natToString :: "nat \<Rightarrow> js_string" where
  "natToString n =
     (if n < 10 then str [char_of (48 + n)]
      else natToString (n div 10) @ str [char_of (48 + n mod 10)])"

declare natToString.simps [simp del]

text \<open>\<open>err instanceof Error ? err.message : 'An unknown error occurred.'\<close>\<close>

fun studioErrorMessage :: "thrown \<Rightarrow> js_value" where
  "studioErrorMessage (ErrorObject m ps) = m"
| "studioErrorMessage (NonObject c) = VStr (str ''An unknown error occurred.'')"
| "studioErrorMessage (PlainObject c ps) = VStr (str ''An unknown error occurred.'')"

definition handleSubmit ::
  "Browser \<Rightarrow> GoogleGenAI option \<Rightarrow> Remote \<Rightarrow> ImageStudioState \<times> Request list \<Rightarrow>
     ImageStudioState \<times> Request list" where
  "handleSubmit browser client remote = (\<lambda>(s, log).
     if trim (st_prompt s) = [] \<or> st_isLoading s \<or> \<not> st_isApiReady s then (s, log)
     else
       let userMessage =
             \<lparr>msg_id = natToString (dateNow browser 0),
              msg_role = User,
              msg_text = Some (st_prompt s),
              msg_imageUrl = None,
              msg_originalImageUrl = map_option (createObjectURL browser 0) (st_imageFile s)\<rparr>;
           currentPrompt = st_prompt s;
           currentImageFile = st_imageFile s;
           s1 = s\<lparr>st_messages := st_messages s @ [userMessage],
                  st_isLoading := True,
                  st_error := None,
                  st_prompt := [],
                  st_imageFile := None\<rparr>
       in (case (case currentImageFile of
                   Some f \<Rightarrow> editImage client remote currentPrompt f log
                 | None \<Rightarrow> generateImage client remote currentPrompt log) of
             (Inr imageUrl, log') \<Rightarrow>
               let modelMessage =
                     \<lparr>msg_id = natToString (dateNow browser 1 + 1),
                      msg_role = Model,
                      msg_text =
                        Some (str (''Here'' @ [CHR 0x27] @ ''s an image based on your prompt: '') @
                              doubleQuote @ currentPrompt @ doubleQuote),
                      msg_imageUrl = Some imageUrl,
                      msg_originalImageUrl =
                        map_option (createObjectURL browser 1) currentImageFile\<rparr>
               in (s1\<lparr>st_messages := st_messages s1 @ [modelMessage],
                       st_isLoading := False\<rparr>, log')
           | (Inl err, log') \<Rightarrow>
               (case templateString (studioErrorMessage err) of
                  Inl x \<Rightarrow> (s1\<lparr>st_isLoading := False\<rparr>, log')
                | Inr errorMessage \<Rightarrow>
                    let errorModelMessage =
                          \<lparr>msg_id = natToString (dateNow browser 1 + 1),
                           msg_role = Model,
                           msg_text =
                             Some (str (''Sorry, I couldn'' @ [CHR 0x27] @
                                        ''t generate the image. Error: '') @ errorMessage),
                           msg_imageUrl = None,
                           msg_originalImageUrl = None\<rparr>
                    in (s1\<lparr>st_error := Some (str ''Failed to generate image: '' @ errorMessage),
                            st_messages := st_messages s1 @ [errorModelMessage],
                            st_isLoading := False\<rparr>, log'))))"

record ChatbotState =
  cb_chat :: "Chat option"
  cb_messages :: "ChatMessage list"
  cb_currentMessage :: js_string
  cb_isLoading :: bool
  cb_isApiReady :: bool

text \<open>The cross mark that opens an error line of the chatbot (U+274C).\<close>

definition crossMark :: js_string where
  "crossMark = [CodeUnit (CHR 0x27) (CHR 0x4C)]"

text \<open>
  The text of the error line: \<open>getUserFriendlyErrorMessage(error)\<close>, then the template
  literal around its result.
\<close>

definition chatErrorText :: "thrown \<Rightarrow> js_exception + js_string" where
  "chatErrorText err =
     (case getUserFriendlyErrorMessage err of
        Inl x \<Rightarrow> Inl x
      | Inr friendlyErrorMessage \<Rightarrow>
          (case templateString friendlyErrorMessage of
             Inl x \<Rightarrow> Inl x
           | Inr t \<Rightarrow> Inr (crossMark @ str '' '' @ t)))"

definition handleSendMessage ::
  "Remote \<Rightarrow> ChatbotState \<times> Request list \<Rightarrow> ChatbotState \<times> Request list" where
  "handleSendMessage remote = (\<lambda>(s, log).
     if trim (cb_currentMessage s) = [] \<or> cb_isLoading s \<or> cb_chat s = None \<or>
        \<not> cb_isApiReady s then (s, log)
     else
       (case cb_chat s of
          None \<Rightarrow> (s, log)
        | Some chat \<Rightarrow>
            let userMessageText = cb_currentMessage s;
                userMessage = \<lparr>cm_role = User, cm_text = Some userMessageText\<rparr>;
                s1 = s\<lparr>cb_messages := cb_messages s @ [userMessage],
                       cb_currentMessage := [],
                       cb_isLoading := True\<rparr>
            in (case callRemote remote (SendMessage chat userMessageText) log of
                  (Inr response, log') \<Rightarrow>
                    let modelMessage = \<lparr>cm_role = Model, cm_text = resp_text response\<rparr>
                    in (s1\<lparr>cb_messages := cb_messages s1 @ [modelMessage],
                            cb_isLoading := False\<rparr>, log')
                | (Inl err, log') \<Rightarrow>
                    (case chatErrorText err of
                       Inl x \<Rightarrow> (s1\<lparr>cb_isLoading := False\<rparr>, log')
                     | Inr t \<Rightarrow>
                         let errorMessage = \<lparr>cm_role = Model, cm_text = Some t\<rparr>
                         in (s1\<lparr>cb_messages := cb_messages s1 @ [errorMessage],
                                 cb_isLoading := False\<rparr>, log')))))"

section \<open>Concrete inputs\<close>

text \<open>
  The hypothesis of the specification's sentence on inline data, as it is worded there:
  some candidate of the envelope, whichever its position, has a part with inline data of
  mime type \<open>m\<close> and payload \<open>d\<close>.
\<close>

definition candidateParts :: "Candidate \<Rightarrow> Part list" where
  "candidateParts c =
     (case cand_content c of
        None \<Rightarrow> []
      | Some ct \<Rightarrow> (case content_parts ct of None \<Rightarrow> [] | Some ps \<Rightarrow> ps))"

definition anyCandidateHasInlineData ::
  "GenerateContentResponse \<Rightarrow> js_string \<Rightarrow> js_string \<Rightarrow> bool" where
  "anyCandidateHasInlineData response m d =
     (case resp_candidates response of
        None \<Rightarrow> False
      | Some cs \<Rightarrow>
          list_ex (\<lambda>c. list_ex (\<lambda>p. part_inlineData p =
                                   Some \<lparr>blob_data = Some d, blob_mimeType = Some m\<rparr>)
                            (candidateParts c)) cs)"

text \<open>Envelopes that the theorems below are evaluated on.\<close>

definition textPart :: "js_string \<Rightarrow> Part" where
  "textPart t = \<lparr>part_inlineData = None, part_text = Some t\<rparr>"

definition pngPart :: Part where
  "pngPart =
     \<lparr>part_inlineData =
        Some \<lparr>blob_data = Some (str ''AAAA''), blob_mimeType = Some (str ''image/png'')\<rparr>,
      part_text = None\<rparr>"

definition candidateOf :: "Part list \<Rightarrow> js_string \<Rightarrow> Candidate" where
  "candidateOf ps fr =
     \<lparr>cand_content = Some \<lparr>content_parts = Some ps\<rparr>, cand_finishReason = Some fr\<rparr>"

definition imageInSecondCandidate :: GenerateContentResponse where
  "imageInSecondCandidate =
     \<lparr>resp_candidates = Some [candidateOf [textPart (str ''Here you go'')] (str ''STOP''),
                              candidateOf [pngPart] (str ''STOP'')],
      resp_promptFeedback = None,
      resp_text = Some (str ''Here you go'')\<rparr>"

definition imageAmongOtherFields :: GenerateContentResponse where
  "imageAmongOtherFields =
     \<lparr>resp_candidates =
        Some [candidateOf [textPart (str ''Here you go''), pngPart] (str ''NO_IMAGE'')],
      resp_promptFeedback =
        Some \<lparr>pf_blockReason = Some (str ''SAFETY''), pf_blockReasonMessage = None\<rparr>,
      resp_text = Some (str ''Here you go'')\<rparr>"

definition blockedForSafety :: GenerateContentResponse where
  "blockedForSafety =
     \<lparr>resp_candidates =
        Some [candidateOf [textPart (str ''I cannot draw that'')] (str ''NO_IMAGE'')],
      resp_promptFeedback =
        Some \<lparr>pf_blockReason = Some (str ''SAFETY''),
              pf_blockReasonMessage = Some (str ''Try another prompt.'')\<rparr>,
      resp_text = Some (str ''I cannot draw that'')\<rparr>"

definition blockedNetworkPolicy :: GenerateContentResponse where
  "blockedNetworkPolicy =
     \<lparr>resp_candidates = None,
      resp_promptFeedback =
        Some \<lparr>pf_blockReason = Some (str ''OTHER''),
              pf_blockReasonMessage = Some (str ''The prompt violates the network usage policy.'')\<rparr>,
      resp_text = None\<rparr>"

definition noImageWith :: "js_string option \<Rightarrow> GenerateContentResponse" where
  "noImageWith t =
     \<lparr>resp_candidates =
        Some [candidateOf (case t of None \<Rightarrow> [] | Some x \<Rightarrow> [textPart x]) (str ''NO_IMAGE'')],
      resp_promptFeedback = None,
      resp_text = t\<rparr>"

text \<open>Remote services, a browser and component states for the same purpose.\<close>

definition imageRemote :: Remote where
  "imageRemote req = Inr imageAmongOtherFields"

definition rejectingRemote :: Remote where
  "rejectingRemote req = Inl (newError (str ''429 Too Many Requests''))"

definition exampleBrowser :: Browser where
  "exampleBrowser =
     \<lparr>dateNow = (\<lambda>k. 1700000000000 + 5 * k),
      createObjectURL = (\<lambda>k f. str ''blob:example'')\<rparr>"

definition studioWithPrompt :: "js_string \<Rightarrow> ImageStudioState" where
  "studioWithPrompt p =
     \<lparr>st_messages = [], st_prompt = p, st_imageFile = None, st_isLoading = False,
      st_error = None, st_isApiReady = True\<rparr>"

definition exampleClient :: GoogleGenAI where
  "exampleClient = \<lparr>apiKey = str ''secret''\<rparr>"

definition chatbotWithMessage :: "js_string \<Rightarrow> ChatbotState" where
  "chatbotWithMessage p =
     \<lparr>cb_chat = Some \<lparr>chat_client = exampleClient, chat_model = str ''gemini-2.5-flash''\<rparr>,
      cb_messages = [], cb_currentMessage = p, cb_isLoading = False, cb_isApiReady = True\<rparr>"

text \<open>
  Code units beyond ASCII: U+00A0 (NO-BREAK SPACE), U+3000 (IDEOGRAPHIC SPACE) and U+212A
  (KELVIN SIGN); and the object that \<open>Object.create(null)\<close> makes, on which
  \<open>String\<close> raises \<open>TypeError\<close>.
\<close>

definition noBreakSpace :: code_unit where
  "noBreakSpace = CodeUnit (CHR 0x00) (CHR 0xA0)"

definition ideographicSpace :: code_unit where
  "ideographicSpace = CodeUnit (CHR 0x30) (CHR 0x00)"

definition kelvinSign :: code_unit where
  "kelvinSign = CodeUnit (CHR 0x21) (CHR 0x2A)"


section \<open>Properties of the classifier\<close>

lemma startsWith_append: "startsWith (k @ b) k"
  by (induction k) simp_all

lemma startsWith_imp_includes: "startsWith s k \<Longrightarrow> js_includes s k"
  by (cases s; cases k) simp_all

lemma js_includes_appendI: "js_includes (a @ k @ b) k"
proof (induction a)
  case Nil
  show ?case using startsWith_append [of k b] by (simp add: startsWith_imp_includes)
next
  case (Cons c a)
  then show ?case by simp
qed


lemma getProp_ApiError_type: "getProp (ApiError t m u) ''type'' = VStr (ErrorType_value t)"
  by (simp add: getProp_def ApiError_def)


lemma msg_nonempty:
  "msgApiKeyInvalid \<noteq> []" "msgRateLimit \<noteq> []" "msgQuota \<noteq> []" "msgNetwork \<noteq> []"
  "msgServiceUnavailable \<noteq> []" "msgContentBlocked \<noteq> []" "msgUnknown m \<noteq> []"
  by (simp_all add: msgApiKeyInvalid_def msgRateLimit_def msgQuota_def
      msgNetwork_def msgServiceUnavailable_def msgContentBlocked_def msgUnknown_def str_def)

lemma parseApiError_raises:
  "\<not> isParsedError e \<Longrightarrow> errorMessageOf e = Inl x \<Longrightarrow> parseApiError e = Inl x"
  by (simp add: parseApiError_def)

lemma parseApiError_fresh:
  assumes "\<not> isParsedError e" and "errorMessageOf e = Inr m"
  shows "\<exists>t u. parseApiError e = Inr (ApiError t m u) \<and> t \<noteq> API_NOT_CONFIGURED \<and> u \<noteq> []
     \<and> (t = UNKNOWN_ERROR \<longrightarrow> u = msgUnknown m)"
proof -
  let ?s = "toLowerCase m"
  consider (key) "isApiKeyError ?s"
    | (rate) "\<not> isApiKeyError ?s" "isRateLimitError ?s"
    | (quota) "\<not> isApiKeyError ?s" "\<not> isRateLimitError ?s" "isQuotaError ?s"
    | (net) "\<not> isApiKeyError ?s" "\<not> isRateLimitError ?s" "\<not> isQuotaError ?s" "isNetworkError ?s"
    | (unavail) "\<not> isApiKeyError ?s" "\<not> isRateLimitError ?s" "\<not> isQuotaError ?s"
        "\<not> isNetworkError ?s" "isServiceUnavailableError ?s"
    | (blocked) "\<not> isApiKeyError ?s" "\<not> isRateLimitError ?s" "\<not> isQuotaError ?s"
        "\<not> isNetworkError ?s" "\<not> isServiceUnavailableError ?s" "isContentBlockedError ?s"
    | (unknown) "\<not> isApiKeyError ?s" "\<not> isRateLimitError ?s" "\<not> isQuotaError ?s"
        "\<not> isNetworkError ?s" "\<not> isServiceUnavailableError ?s" "\<not> isContentBlockedError ?s"
    by blast
  then show ?thesis
  proof cases
    case key
    with assms have "parseApiError e = Inr (ApiError API_KEY_INVALID m msgApiKeyInvalid)"
      by (simp add: parseApiError_def Let_def)
    then show ?thesis using msg_nonempty(1) by blast
  next
    case rate
    with assms have "parseApiError e = Inr (ApiError RATE_LIMIT_EXCEEDED m msgRateLimit)"
      by (simp add: parseApiError_def Let_def)
    then show ?thesis using msg_nonempty(2) by blast
  next
    case quota
    with assms have "parseApiError e = Inr (ApiError QUOTA_EXCEEDED m msgQuota)"
      by (simp add: parseApiError_def Let_def)
    then show ?thesis using msg_nonempty(3) by blast
  next
    case net
    with assms have "parseApiError e = Inr (ApiError NETWORK_ERROR m msgNetwork)"
      by (simp add: parseApiError_def Let_def)
    then show ?thesis using msg_nonempty(4) by blast
  next
    case unavail
    with assms have "parseApiError e = Inr (ApiError SERVICE_UNAVAILABLE m msgServiceUnavailable)"
      by (simp add: parseApiError_def Let_def)
    then show ?thesis using msg_nonempty(5) by blast
  next
    case blocked
    with assms have "parseApiError e = Inr (ApiError CONTENT_BLOCKED m msgContentBlocked)"
      by (simp add: parseApiError_def Let_def)
    then show ?thesis using msg_nonempty(6) by blast
  next
    case unknown
    with assms have "parseApiError e = Inr (ApiError UNKNOWN_ERROR m (msgUnknown m))"
      by (simp add: parseApiError_def Let_def)
    then show ?thesis using msg_nonempty(7) by blast
  qed
qed

text \<open>
  C4. A value that is already shaped as a classified error (an object carrying both the
  \<open>type\<close> field and the \<open>userFriendlyMessage\<close> field) is returned by \<open>parseApiError\<close>
  itself, unchanged.
\<close>

theorem parseApiError_passthrough:
  "isParsedError e \<Longrightarrow> parseApiError e = Inr e"
  by (simp add: parseApiError_def)

theorem parseApiError_passthrough_witness:
  "isParsedError (createApiError API_NOT_CONFIGURED (str ''no key'') (str ''Set the key.'')) \<and>
   parseApiError (createApiError API_NOT_CONFIGURED (str ''no key'') (str ''Set the key.'')) =
     Inr (createApiError API_NOT_CONFIGURED (str ''no key'') (str ''Set the key.''))"
proof -
  have a: "isParsedError (createApiError API_NOT_CONFIGURED (str ''no key'') (str ''Set the key.''))"
    by code_simp
  from parseApiError_passthrough [OF a] a show ?thesis by simp
qed

text \<open>
  C5. A raw error value (one that is not passed through) whose lower-cased message contains
  one of the auth keywords "api key", "unauthorized", "401", "403", "authentication",
  "permission denied" is classified \<open>API_KEY_INVALID\<close>, whatever else the message
  contains: keywords of the later categories, such as the network terms, do not matter.
\<close>

theorem parseApiError_auth_priority:
  assumes "\<not> isParsedError e"
    and "errorMessageOf e = Inr m"
    and "\<exists>k \<in> set [str ''api key'', str ''unauthorized'', str ''401'', str ''403'',
                    str ''authentication'', str ''permission denied''].
           js_includes (toLowerCase m) k"
  shows "parseApiError e = Inr (ApiError API_KEY_INVALID m msgApiKeyInvalid)"
  using assms by (auto simp add: parseApiError_def isApiKeyError_def)

theorem parseApiError_auth_priority_witness:
  "isNetworkError (toLowerCase (str ''Network error: 401 Unauthorized'')) \<and>
   parseApiError (newError (str ''Network error: 401 Unauthorized'')) =
     Inr (ApiError API_KEY_INVALID (str ''Network error: 401 Unauthorized'') msgApiKeyInvalid) \<and>
   parseApiError (newError (str ''API '' @ kelvinSign # str ''EY rejected by network'')) =
     Inr (ApiError API_KEY_INVALID (str ''API '' @ kelvinSign # str ''EY rejected by network'')
            msgApiKeyInvalid)"
proof -
  define m1 where "m1 = str ''Network error: 401 Unauthorized''"
  define m2 where "m2 = str ''API '' @ kelvinSign # str ''EY rejected by network''"
  have a: "\<not> isParsedError (newError m)" for m
    by (simp add: isParsedError_def newError_def js_in_def)
  have b: "errorMessageOf (newError m) = Inr m" for m
    by (simp add: newError_def)
  have c1: "\<exists>k \<in> set [str ''api key'', str ''unauthorized'', str ''401'', str ''403'',
                      str ''authentication'', str ''permission denied''].
             js_includes (toLowerCase m1) k"
    unfolding m1_def by code_simp
  have c2: "\<exists>k \<in> set [str ''api key'', str ''unauthorized'', str ''401'', str ''403'',
                      str ''authentication'', str ''permission denied''].
             js_includes (toLowerCase m2) k"
    unfolding m2_def by code_simp
  have d: "isNetworkError (toLowerCase m1)" unfolding m1_def by code_simp
  show ?thesis
    using parseApiError_auth_priority [OF a b c1] parseApiError_auth_priority [OF a b c2] d
    unfolding m1_def m2_def by simp
qed




text \<open>
  C10. For every value that carries no \<open>type\<close> field, \<open>parseApiError\<close> never returns
  \<open>API_NOT_CONFIGURED\<close>: either it returns an object whose \<open>type\<close> is one of the
  other seven members of the enum, or the raw message cannot be derived and it raises the
  exception of that derivation, returning nothing.
\<close>

theorem parseApiError_fresh_type:
  assumes "\<not> js_in ''type'' e"
  shows "case parseApiError e of
           Inl x \<Rightarrow> errorMessageOf e = Inl x
         | Inr r \<Rightarrow>
             getProp r ''type'' \<noteq> VStr (ErrorType_value API_NOT_CONFIGURED) \<and>
             getProp r ''type'' \<in> set (map (\<lambda>t. VStr (ErrorType_value t))
               [API_KEY_INVALID, RATE_LIMIT_EXCEEDED, QUOTA_EXCEEDED, NETWORK_ERROR,
                SERVICE_UNAVAILABLE, CONTENT_BLOCKED, UNKNOWN_ERROR])"
proof -
  from assms have n: "\<not> isParsedError e" by (simp add: isParsedError_def)
  show ?thesis
  proof (cases "errorMessageOf e")
    case (Inl x)
    with n show ?thesis by (simp add: parseApiError_raises)
  next
    case (Inr m)
    from parseApiError_fresh [OF n Inr] obtain t u where
      p: "parseApiError e = Inr (ApiError t m u)" and t: "t \<noteq> API_NOT_CONFIGURED"
      by blast
    from t have "VStr (ErrorType_value t) \<noteq> VStr (ErrorType_value API_NOT_CONFIGURED) \<and>
        VStr (ErrorType_value t) \<in> set (map (\<lambda>t. VStr (ErrorType_value t))
               [API_KEY_INVALID, RATE_LIMIT_EXCEEDED, QUOTA_EXCEEDED, NETWORK_ERROR,
                SERVICE_UNAVAILABLE, CONTENT_BLOCKED, UNKNOWN_ERROR])"
      by (cases t) (simp_all add: str_def)
    then show ?thesis by (simp only: p sum.case getProp_ApiError_type simp_thms)
  qed
qed

theorem parseApiError_fresh_type_witness:
  "\<not> js_in ''type'' (newError (str ''boom'')) \<and>
   parseApiError (newError (str ''boom'')) =
     Inr (ApiError UNKNOWN_ERROR (str ''boom'') (msgUnknown (str ''boom''))) \<and>
   getProp (ApiError UNKNOWN_ERROR (str ''boom'') (msgUnknown (str ''boom''))) ''type'' \<noteq>
     VStr (ErrorType_value API_NOT_CONFIGURED)"
proof -
  have a: "\<not> js_in ''type'' (newError (str ''boom''))" by code_simp
  have d: "parseApiError (newError (str ''boom'')) =
     Inr (ApiError UNKNOWN_ERROR (str ''boom'') (msgUnknown (str ''boom'')))" by code_simp
  from parseApiError_fresh_type [OF a] a d show ?thesis by simp
qed

section \<open>Properties of the response parser\<close>

lemma firstInlineData_none:
  "(\<forall>q \<in> set ps. part_inlineData q = None) \<Longrightarrow> firstInlineData ps = None"
  by (induction ps) simp_all

lemma firstInlineData_first:
  "(\<forall>q \<in> set ps1. part_inlineData q = None) \<Longrightarrow> part_inlineData p = Some b \<Longrightarrow>
     firstInlineData (ps1 @ p # ps2) = Some b"
  by (induction ps1) simp_all

lemma startsWith_sep: "startsWith (a @ q # b) k \<Longrightarrow> q \<notin> set k \<Longrightarrow> startsWith a k"
proof (induction a arbitrary: k)
  case Nil
  then show ?case by (cases k) auto
next
  case (Cons c a)
  then show ?case by (cases k) auto
qed

lemma js_includes_sep:
  "js_includes (a @ q # b) k \<Longrightarrow> q \<notin> set k \<Longrightarrow> js_includes a k \<or> js_includes b k"
proof (induction a)
  case Nil
  then show ?case by (cases k) auto
next
  case (Cons c a)
  then show ?case using startsWith_sep [of "c # a" q b k] by auto
qed

lemma startsWith_iff: "startsWith s k \<longleftrightarrow> (\<exists>v. s = k @ v)"
proof (induction s k rule: startsWith.induct)
  case (1 s)
  then show ?case by simp
next
  case (2 k ks)
  then show ?case by simp
next
  case (3 c cs k ks)
  then show ?case by auto
qed

lemma js_includes_iff: "js_includes s k \<longleftrightarrow> (\<exists>u v. s = u @ k @ v)"
proof
  assume "js_includes s k"
  then show "\<exists>u v. s = u @ k @ v"
  proof (induction s)
    case Nil
    then show ?case by simp
  next
    case (Cons c cs)
    from Cons.prems consider "startsWith (c # cs) k" | "js_includes cs k" by auto
    then show ?case
    proof cases
      case 1
      then obtain v where "c # cs = k @ v" unfolding startsWith_iff by blast
      then have "c # cs = [] @ k @ v" by simp
      then show ?thesis by blast
    next
      case 2
      with Cons.IH obtain u v where "cs = u @ k @ v" by blast
      then have "c # cs = (c # u) @ k @ v" by simp
      then show ?thesis by blast
    qed
  qed
next
  assume "\<exists>u v. s = u @ k @ v"
  then show "js_includes s k" using js_includes_appendI by blast
qed

lemma js_includes_mono: "js_includes x k \<Longrightarrow> js_includes (a @ x @ b) k"
proof -
  assume "js_includes x k"
  then obtain u v where "x = u @ k @ v" unfolding js_includes_iff by blast
  then have "a @ x @ b = (a @ u) @ k @ (v @ b)" by simp
  then show ?thesis unfolding js_includes_iff by blast
qed

lemma js_includes_quoted:
  assumes "q \<notin> set k" and "k \<noteq> []"
  shows "js_includes (p @ q # x @ [q]) k \<longleftrightarrow> js_includes p k \<or> js_includes x k"
proof
  assume a: "js_includes (p @ q # x @ [q]) k"
  show "js_includes p k \<or> js_includes x k"
  proof (cases "js_includes p k")
    case True
    then show ?thesis by simp
  next
    case False
    with js_includes_sep [OF a assms(1)] have "js_includes (x @ [q]) k" by simp
    from js_includes_sep [OF this assms(1)] assms(2) show ?thesis by simp
  qed
next
  assume "js_includes p k \<or> js_includes x k"
  then show "js_includes (p @ q # x @ [q]) k"
  proof
    assume "js_includes p k"
    from js_includes_mono [OF this, of "[]" "q # x @ [q]"] show ?thesis by simp
  next
    assume "js_includes x k"
    from js_includes_mono [OF this, of "p @ [q]" "[q]"] show ?thesis by simp
  qed
qed

lemma toLowerCase_append: "toLowerCase (a @ b) = toLowerCase a @ toLowerCase b"
  by (simp add: toLowerCase_def)

lemma toLowerCase_explanation:
  "toLowerCase (str ''Model provided an explanation instead of an image: '' @
                doubleQuote @ x @ doubleQuote) =
   str ''model provided an explanation instead of an image: '' @
   CodeUnit (CHR 0x00) (CHR 0x22) # toLowerCase x @ [CodeUnit (CHR 0x00) (CHR 0x22)]"
proof -
  define p where "p = str ''Model provided an explanation instead of an image: ''"
  have 1: "toLowerCase p = str ''model provided an explanation instead of an image: ''"
    unfolding p_def by code_simp
  have 2: "toLowerCase doubleQuote = [CodeUnit (CHR 0x00) (CHR 0x22)]" by code_simp
  have "toLowerCase (p @ doubleQuote @ x @ doubleQuote) =
        toLowerCase p @ toLowerCase doubleQuote @ toLowerCase x @ toLowerCase doubleQuote"
    by (simp only: toLowerCase_append)
  then show ?thesis unfolding 1 2 unfolding p_def by simp
qed

lemma quoted_keywords:
  fixes p x :: js_string
  defines "s \<equiv> p @ CodeUnit (CHR 0x00) (CHR 0x22) # x @ [CodeUnit (CHR 0x00) (CHR 0x22)]"
  shows "isApiKeyError s \<longleftrightarrow> isApiKeyError p \<or> isApiKeyError x"
    and "isRateLimitError s \<longleftrightarrow> isRateLimitError p \<or> isRateLimitError x"
    and "isQuotaError s \<longleftrightarrow> isQuotaError p \<or> isQuotaError x"
    and "isNetworkError s \<longleftrightarrow> isNetworkError p \<or> isNetworkError x"
    and "isServiceUnavailableError s \<longleftrightarrow> isServiceUnavailableError p \<or> isServiceUnavailableError x"
    and "isContentBlockedError s \<longleftrightarrow> isContentBlockedError p \<or> isContentBlockedError x"
  unfolding s_def isApiKeyError_def isRateLimitError_def isQuotaError_def isNetworkError_def
    isServiceUnavailableError_def isContentBlockedError_def
  by (auto simp add: js_includes_quoted str_def)

lemma parseApiError_newError_blocked:
  assumes "\<not> isApiKeyError (toLowerCase m)" "\<not> isRateLimitError (toLowerCase m)"
    "\<not> isQuotaError (toLowerCase m)" "\<not> isNetworkError (toLowerCase m)"
    "\<not> isServiceUnavailableError (toLowerCase m)" "isContentBlockedError (toLowerCase m)"
  shows "parseApiError (newError m) = Inr (ApiError CONTENT_BLOCKED m msgContentBlocked)"
  using assms by (simp add: parseApiError_def newError_def isParsedError_def js_in_def Let_def)

lemma parseApiError_newError_unknown:
  assumes "\<not> isApiKeyError (toLowerCase m)" "\<not> isRateLimitError (toLowerCase m)"
    "\<not> isQuotaError (toLowerCase m)" "\<not> isNetworkError (toLowerCase m)"
    "\<not> isServiceUnavailableError (toLowerCase m)" "\<not> isContentBlockedError (toLowerCase m)"
  shows "parseApiError (newError m) = Inr (ApiError UNKNOWN_ERROR m (msgUnknown m))"
  using assms by (simp add: parseApiError_def newError_def isParsedError_def js_in_def Let_def)

lemma blocked_message_lower:
  "isContentBlockedError (toLowerCase (str ''Request blocked due to '' @ rest))"
proof -
  define p where "p = str ''Request blocked due to ''"
  have 1: "toLowerCase p = str ''request '' @ str ''blocked'' @ str '' due to ''"
    unfolding p_def by code_simp
  have "js_includes (str ''request '' @ str ''blocked'' @ (str '' due to '' @ toLowerCase rest))
          (str ''blocked'')"
    by (rule js_includes_appendI)
  then have "js_includes (toLowerCase (p @ rest)) (str ''blocked'')"
    unfolding toLowerCase_append 1 by simp
  then show ?thesis unfolding p_def isContentBlockedError_def by blast
qed

lemma explanation_unknown:
  assumes "\<not> isApiKeyError (toLowerCase x)" "\<not> isRateLimitError (toLowerCase x)"
    "\<not> isQuotaError (toLowerCase x)" "\<not> isNetworkError (toLowerCase x)"
    "\<not> isServiceUnavailableError (toLowerCase x)" "\<not> isContentBlockedError (toLowerCase x)"
    and "m = str ''Model provided an explanation instead of an image: '' @
             doubleQuote @ x @ doubleQuote"
  shows "parseApiError (newError m) = Inr (ApiError UNKNOWN_ERROR m (msgUnknown m))"
proof -
  define p where "p = str ''model provided an explanation instead of an image: ''"
  have l: "toLowerCase m =
           p @ CodeUnit (CHR 0x00) (CHR 0x22) # toLowerCase x @ [CodeUnit (CHR 0x00) (CHR 0x22)]"
    unfolding assms(7) p_def by (rule toLowerCase_explanation)
  have p: "\<not> isApiKeyError p" "\<not> isRateLimitError p" "\<not> isQuotaError p" "\<not> isNetworkError p"
    "\<not> isServiceUnavailableError p" "\<not> isContentBlockedError p"
    unfolding p_def by code_simp+
  show ?thesis
    by (rule parseApiError_newError_unknown) (simp_all only: l quoted_keywords p assms(1-6) simp_thms)
qed

lemma msgNoImage_unknown:
  "parseApiError (newError msgNoImage) =
     Inr (ApiError UNKNOWN_ERROR msgNoImage (msgUnknown msgNoImage))"
proof -
  have "\<not> isApiKeyError (toLowerCase msgNoImage)" "\<not> isRateLimitError (toLowerCase msgNoImage)"
    "\<not> isQuotaError (toLowerCase msgNoImage)" "\<not> isNetworkError (toLowerCase msgNoImage)"
    "\<not> isServiceUnavailableError (toLowerCase msgNoImage)"
    "\<not> isContentBlockedError (toLowerCase msgNoImage)"
    by code_simp+
  then show ?thesis by (rule parseApiError_newError_unknown)
qed

lemma kelvin_sign_is_folded:
  "parseApiError (newError
     (str ''Request blocked due to OTHER. NETWOR'' @ kelvinSign # str '' policy.'')) =
   Inr (ApiError NETWORK_ERROR
     (str ''Request blocked due to OTHER. NETWOR'' @ kelvinSign # str '' policy.'') msgNetwork)"
  by code_simp

text \<open>
  C2, as the code has it. The claim fails when the inline data sits in a candidate other
  than the first: the parser reads \<open>candidates[0]\<close> only, and here it raises the error of
  its text branch.
\<close>

theorem inline_any_candidate_counterexample:
  "anyCandidateHasInlineData imageInSecondCandidate (str ''image/png'') (str ''AAAA'') \<and>
   processImageResponse imageInSecondCandidate =
     Inl (newError (str ''Model returned a text explanation instead of an image: '' @
                    doubleQuote @ str ''Here you go'' @ doubleQuote))"
  by code_simp

text \<open>
  C2, amended. When the parts of the first candidate contain a part with inline data of
  mime type \<open>m\<close> and payload \<open>d\<close>, and no part before it has inline data, then
  \<open>processImageResponse\<close> returns exactly \<open>data:m;base64,d\<close>, whatever the prompt
  feedback, the finish reason and the text of the envelope are.
\<close>

theorem processImageResponse_inline:
  assumes "firstParts response = ps1 @ p # ps2"
    and "\<forall>q \<in> set ps1. part_inlineData q = None"
    and "part_inlineData p = Some \<lparr>blob_data = Some d, blob_mimeType = Some m\<rparr>"
  shows "processImageResponse response = Inr (str ''data:'' @ m @ str '';base64,'' @ d)"
  using firstInlineData_first [OF assms(2,3), of ps2] assms(1)
  by (simp add: processImageResponse_def dataUri_def)

theorem processImageResponse_inline_witness:
  "firstParts imageAmongOtherFields = [textPart (str ''Here you go'')] @ pngPart # [] \<and>
   blockReasonOf imageAmongOtherFields = Some (str ''SAFETY'') \<and>
   firstFinishReason imageAmongOtherFields = Some (str ''NO_IMAGE'') \<and>
   resp_text imageAmongOtherFields = Some (str ''Here you go'') \<and>
   processImageResponse imageAmongOtherFields = Inr (str ''data:image/png;base64,AAAA'')"
proof -
  have a: "firstParts imageAmongOtherFields = [textPart (str ''Here you go'')] @ pngPart # []"
    by code_simp
  have b: "\<forall>q \<in> set [textPart (str ''Here you go'')]. part_inlineData q = None"
    by (simp add: textPart_def)
  have c: "part_inlineData pngPart =
             Some \<lparr>blob_data = Some (str ''AAAA''), blob_mimeType = Some (str ''image/png'')\<rparr>"
    by (simp add: pngPart_def)
  have d: "blockReasonOf imageAmongOtherFields = Some (str ''SAFETY'')" by code_simp
  have e: "firstFinishReason imageAmongOtherFields = Some (str ''NO_IMAGE'')" by code_simp
  have f: "resp_text imageAmongOtherFields = Some (str ''Here you go'')" by code_simp
  have g: "str ''data:'' @ str ''image/png'' @ str '';base64,'' @ str ''AAAA'' =
           str ''data:image/png;base64,AAAA''" by code_simp
  from processImageResponse_inline [OF a b c] a d e f g show ?thesis by simp
qed

text \<open>
  C6, as the code has it. The error raised for a blocked prompt is a plain \<open>Error\<close>;
  its category is decided by the keyword cascade on its message, and a block explanation
  containing a keyword of an earlier category (here "network") takes the classification
  away from \<open>CONTENT_BLOCKED\<close>.
\<close>

theorem blocked_classification_counterexample:
  "firstParts blockedNetworkPolicy = [] \<and>
   blockReasonOf blockedNetworkPolicy = Some (str ''OTHER'') \<and>
   processImageResponse blockedNetworkPolicy =
     Inl (newError
       (str ''Request blocked due to OTHER. The prompt violates the network usage policy.'')) \<and>
   parseApiError (newError
       (str ''Request blocked due to OTHER. The prompt violates the network usage policy.'')) =
     Inr (ApiError NETWORK_ERROR
       (str ''Request blocked due to OTHER. The prompt violates the network usage policy.'')
       msgNetwork)"
  by code_simp

text \<open>
  C6, amended. For an envelope whose first candidate has no inline data and whose
  \<open>promptFeedback.blockReason\<close> is present and not empty, \<open>processImageResponse\<close>
  raises an error whose message is "Request blocked due to <reason>." followed, when
  \<open>blockReasonMessage\<close> is present and not empty, by a space and that message. The
  message contains the block reason and the block reason message. It is classified
  \<open>CONTENT_BLOCKED\<close> whenever its lower-cased text contains no keyword of the five
  categories tested before. Nothing is assumed on the finish reason or on the text of the
  envelope: the check comes before both.
\<close>

theorem processImageResponse_blocked:
  assumes "\<forall>q \<in> set (firstParts response). part_inlineData q = None"
    and "blockReasonOf response = Some reason"
    and "reason \<noteq> []"
    and "msg = str ''Request blocked due to '' @ reason @ str ''.'' @
               (if truthy (blockReasonMessageOf response)
                then str '' '' @ interpolate (blockReasonMessageOf response) else [])"
  shows "processImageResponse response = Inl (newError msg) \<and>
         js_includes msg reason \<and>
         (\<forall>explanation. blockReasonMessageOf response = Some explanation \<longrightarrow>
            js_includes msg explanation) \<and>
         (\<not> isApiKeyError (toLowerCase msg) \<and> \<not> isRateLimitError (toLowerCase msg) \<and>
          \<not> isQuotaError (toLowerCase msg) \<and> \<not> isNetworkError (toLowerCase msg) \<and>
          \<not> isServiceUnavailableError (toLowerCase msg) \<longrightarrow>
            parseApiError (newError msg) = Inr (ApiError CONTENT_BLOCKED msg msgContentBlocked))"
proof (intro conjI allI impI)
  from assms(1) have "firstInlineData (firstParts response) = None"
    by (rule firstInlineData_none)
  then show "processImageResponse response = Inl (newError msg)"
    using assms(2,3,4) by (simp add: processImageResponse_def)
next
  show "js_includes msg reason"
    unfolding assms(4) by (rule js_includes_appendI)
next
  fix explanation
  assume e: "blockReasonMessageOf response = Some explanation"
  show "js_includes msg explanation"
  proof (cases "explanation = []")
    case True
    have "msg \<noteq> []" unfolding assms(4) by (simp add: str_def)
    then show ?thesis unfolding True by (cases msg) simp_all
  next
    case False
    then have "msg = (str ''Request blocked due to '' @ reason @ str ''. '') @ explanation @ []"
      unfolding assms(4) using e by (simp add: str_def)
    then show ?thesis using js_includes_appendI by metis
  qed
next
  assume h: "\<not> isApiKeyError (toLowerCase msg) \<and> \<not> isRateLimitError (toLowerCase msg) \<and>
          \<not> isQuotaError (toLowerCase msg) \<and> \<not> isNetworkError (toLowerCase msg) \<and>
          \<not> isServiceUnavailableError (toLowerCase msg)"
  have "isContentBlockedError (toLowerCase msg)"
    unfolding assms(4) by (rule blocked_message_lower)
  with h show "parseApiError (newError msg) =
                 Inr (ApiError CONTENT_BLOCKED msg msgContentBlocked)"
    by (simp add: parseApiError_newError_blocked)
qed

theorem processImageResponse_blocked_witness:
  "firstFinishReason blockedForSafety = Some (str ''NO_IMAGE'') \<and>
   resp_text blockedForSafety = Some (str ''I cannot draw that'') \<and>
   processImageResponse blockedForSafety =
     Inl (newError (str ''Request blocked due to SAFETY. Try another prompt.'')) \<and>
   js_includes (str ''Request blocked due to SAFETY. Try another prompt.'') (str ''SAFETY'') \<and>
   js_includes (str ''Request blocked due to SAFETY. Try another prompt.'')
     (str ''Try another prompt.'') \<and>
   parseApiError (newError (str ''Request blocked due to SAFETY. Try another prompt.'')) =
     Inr (ApiError CONTENT_BLOCKED (str ''Request blocked due to SAFETY. Try another prompt.'')
            msgContentBlocked)"
proof -
  define m where "m = str ''Request blocked due to SAFETY. Try another prompt.''"
  have a: "\<forall>q \<in> set (firstParts blockedForSafety). part_inlineData q = None" by code_simp
  have b: "blockReasonOf blockedForSafety = Some (str ''SAFETY'')" by code_simp
  have c: "str ''SAFETY'' \<noteq> []" by (simp add: str_def)
  have d: "m = str ''Request blocked due to '' @ str ''SAFETY'' @ str ''.'' @
               (if truthy (blockReasonMessageOf blockedForSafety)
                then str '' '' @ interpolate (blockReasonMessageOf blockedForSafety) else [])"
    unfolding m_def by code_simp
  have e: "blockReasonMessageOf blockedForSafety = Some (str ''Try another prompt.'')"
    by code_simp
  have f: "\<not> isApiKeyError (toLowerCase m) \<and> \<not> isRateLimitError (toLowerCase m) \<and>
          \<not> isQuotaError (toLowerCase m) \<and> \<not> isNetworkError (toLowerCase m) \<and>
          \<not> isServiceUnavailableError (toLowerCase m)"
    unfolding m_def by code_simp
  have g: "firstFinishReason blockedForSafety = Some (str ''NO_IMAGE'')" by code_simp
  have h: "resp_text blockedForSafety = Some (str ''I cannot draw that'')" by code_simp
  from processImageResponse_blocked [OF a b c d] e f g h
  show ?thesis unfolding m_def by blast
qed

text \<open>
  C7, as the code has it. The text is quoted after \<open>trim\<close>, so surrounding white space
  is not quoted, and the category of the error is decided by the keyword cascade on the
  whole message: an explanation containing "not allowed" is classified
  \<open>CONTENT_BLOCKED\<close>, not \<open>UNKNOWN_ERROR\<close>.
\<close>

theorem no_image_explanation_counterexample:
  "resp_text (noImageWith (Some (str '' Drawing weapons is not allowed. ''))) =
     Some (str '' Drawing weapons is not allowed. '') \<and>
   processImageResponse (noImageWith (Some (str '' Drawing weapons is not allowed. ''))) =
     Inl (newError (str ''Model provided an explanation instead of an image: '' @ doubleQuote @
                    str ''Drawing weapons is not allowed.'' @ doubleQuote)) \<and>
   \<not> js_includes (str ''Model provided an explanation instead of an image: '' @ doubleQuote @
                    str ''Drawing weapons is not allowed.'' @ doubleQuote)
        (str '' Drawing weapons is not allowed. '') \<and>
   parseApiError (newError (str ''Model provided an explanation instead of an image: '' @
              doubleQuote @ str ''Drawing weapons is not allowed.'' @ doubleQuote)) =
     Inr (ApiError CONTENT_BLOCKED
            (str ''Model provided an explanation instead of an image: '' @
             doubleQuote @ str ''Drawing weapons is not allowed.'' @ doubleQuote)
            msgContentBlocked)"
  by code_simp

text \<open>
  C7, amended. For an envelope whose first candidate has no inline data, with no (or an
  empty) block reason and with finish reason \<open>NO_IMAGE\<close> on the first candidate:
  when the text \<open>t\<close> of the envelope is present and not empty, the error raised has the
  message "Model provided an explanation instead of an image: " followed by \<open>trim t\<close>
  in double quotes, and it is classified \<open>UNKNOWN_ERROR\<close> whenever the lower-cased
  \<open>trim t\<close> contains no keyword of the classifier; when the text is absent or empty,
  the error raised has the generic message, which is classified \<open>UNKNOWN_ERROR\<close>.
\<close>

theorem processImageResponse_no_image:
  assumes "\<forall>q \<in> set (firstParts response). part_inlineData q = None"
    and "\<not> truthy (blockReasonOf response)"
    and "firstFinishReason response = Some (str ''NO_IMAGE'')"
  shows "(\<forall>t m. resp_text response = Some t \<and> t \<noteq> [] \<and>
            m = str ''Model provided an explanation instead of an image: '' @
                doubleQuote @ trim t @ doubleQuote \<longrightarrow>
            processImageResponse response = Inl (newError m) \<and>
            (\<not> isApiKeyError (toLowerCase (trim t)) \<and> \<not> isRateLimitError (toLowerCase (trim t)) \<and>
             \<not> isQuotaError (toLowerCase (trim t)) \<and> \<not> isNetworkError (toLowerCase (trim t)) \<and>
             \<not> isServiceUnavailableError (toLowerCase (trim t)) \<and>
             \<not> isContentBlockedError (toLowerCase (trim t)) \<longrightarrow>
               parseApiError (newError m) = Inr (ApiError UNKNOWN_ERROR m (msgUnknown m)))) \<and>
         (\<not> truthy (resp_text response) \<longrightarrow>
            processImageResponse response = Inl (newError msgNoImage) \<and>
            parseApiError (newError msgNoImage) =
              Inr (ApiError UNKNOWN_ERROR msgNoImage (msgUnknown msgNoImage)))"
proof -
  from assms(1) have n: "firstInlineData (firstParts response) = None"
    by (rule firstInlineData_none)
  have s: "str ''NO_IMAGE'' \<noteq> []" "str ''NO_IMAGE'' \<noteq> str ''STOP''"
    by (simp_all add: str_def)
  have 1: "processImageResponse response =
             Inl (newError (str ''Model provided an explanation instead of an image: '' @
                            doubleQuote @ trim t @ doubleQuote))"
    if "resp_text response = Some t" "t \<noteq> []" for t
    using n assms(2,3) that s by (simp add: processImageResponse_def)
  have 2: "processImageResponse response = Inl (newError msgNoImage)"
    if "\<not> truthy (resp_text response)"
    using n assms(2,3) that s
    by (cases "resp_text response") (simp_all add: processImageResponse_def)
  show ?thesis
    using 1 2 explanation_unknown msgNoImage_unknown by blast
qed

theorem processImageResponse_no_image_witness:
  "processImageResponse
     (noImageWith (Some (noBreakSpace # str ''I cannot draw that'' @ [ideographicSpace]))) =
     Inl (newError (str ''Model provided an explanation instead of an image: '' @ doubleQuote @
                    str ''I cannot draw that'' @ doubleQuote)) \<and>
   parseApiError (newError (str ''Model provided an explanation instead of an image: '' @
              doubleQuote @ str ''I cannot draw that'' @ doubleQuote)) =
     Inr (ApiError UNKNOWN_ERROR
            (str ''Model provided an explanation instead of an image: '' @
             doubleQuote @ str ''I cannot draw that'' @ doubleQuote)
            (msgUnknown (str ''Model provided an explanation instead of an image: '' @
               doubleQuote @ str ''I cannot draw that'' @ doubleQuote))) \<and>
   processImageResponse (noImageWith None) = Inl (newError msgNoImage) \<and>
   parseApiError (newError msgNoImage) =
     Inr (ApiError UNKNOWN_ERROR msgNoImage (msgUnknown msgNoImage))"
proof -
  define t where "t = noBreakSpace # str ''I cannot draw that'' @ [ideographicSpace]"
  define m where
    "m = str ''Model provided an explanation instead of an image: '' @
         doubleQuote @ trim t @ doubleQuote"
  have a: "\<forall>q \<in> set (firstParts (noImageWith x)). part_inlineData q = None" for x
    by (cases x)
      (simp_all add: noImageWith_def firstParts_def firstCandidate_def candidateOf_def textPart_def)
  have b: "\<not> truthy (blockReasonOf (noImageWith x))" for x
    by (simp add: noImageWith_def blockReasonOf_def)
  have c: "firstFinishReason (noImageWith x) = Some (str ''NO_IMAGE'')" for x
    by (simp add: noImageWith_def firstFinishReason_def firstCandidate_def candidateOf_def)
  have d: "resp_text (noImageWith (Some t)) = Some t \<and> t \<noteq> []"
    unfolding t_def by (simp add: noImageWith_def)
  have g: "trim t = str ''I cannot draw that''" unfolding t_def by code_simp
  have e: "\<not> isApiKeyError (toLowerCase (trim t)) \<and> \<not> isRateLimitError (toLowerCase (trim t)) \<and>
             \<not> isQuotaError (toLowerCase (trim t)) \<and> \<not> isNetworkError (toLowerCase (trim t)) \<and>
             \<not> isServiceUnavailableError (toLowerCase (trim t)) \<and>
             \<not> isContentBlockedError (toLowerCase (trim t))"
    unfolding g by code_simp
  have f: "\<not> truthy (resp_text (noImageWith None))" by (simp add: noImageWith_def)
  from processImageResponse_no_image [OF a b c, of "Some t"] d e m_def
  have 1: "processImageResponse (noImageWith (Some t)) = Inl (newError m)"
    and 2: "parseApiError (newError m) = Inr (ApiError UNKNOWN_ERROR m (msgUnknown m))"
    by blast+
  from processImageResponse_no_image [OF a b c, of None] f
  have 3: "processImageResponse (noImageWith None) = Inl (newError msgNoImage)"
    and 4: "parseApiError (newError msgNoImage) =
              Inr (ApiError UNKNOWN_ERROR msgNoImage (msgUnknown msgNoImage))"
    by blast+
  show ?thesis
    using 1 2 3 4 unfolding m_def g unfolding t_def by simp
qed

section \<open>Properties of the generation client and of the conversations\<close>

lemma trim_blank: "trim s = [] \<longleftrightarrow> (\<forall>c \<in> set s. isWhiteSpace c)"
proof -
  have "trim s = [] \<longleftrightarrow> (\<forall>c \<in> set (dropWhile isWhiteSpace s). isWhiteSpace c)"
    by (simp add: trim_def dropWhile_eq_Nil_conv)
  also have "\<dots> \<longleftrightarrow> dropWhile isWhiteSpace s = []"
  proof
    assume a: "\<forall>c \<in> set (dropWhile isWhiteSpace s). isWhiteSpace c"
    show "dropWhile isWhiteSpace s = []"
    proof (rule ccontr)
      assume n: "dropWhile isWhiteSpace s \<noteq> []"
      then have "\<not> isWhiteSpace (hd (dropWhile isWhiteSpace s))" by (rule hd_dropWhile)
      moreover from n have "hd (dropWhile isWhiteSpace s) \<in> set (dropWhile isWhiteSpace s)"
        by (rule hd_in_set)
      ultimately show False using a by blast
    qed
  next
    assume "dropWhile isWhiteSpace s = []"
    then show "\<forall>c \<in> set (dropWhile isWhiteSpace s). isWhiteSpace c"
      by (auto dest: set_dropWhileD)
  qed
  also have "\<dots> \<longleftrightarrow> (\<forall>c \<in> set s. isWhiteSpace c)"
    by (simp add: dropWhile_eq_Nil_conv)
  finally show ?thesis .
qed

lemma handleSubmit_rejected:
  assumes "trim (st_prompt s) \<noteq> []" and "\<not> st_isLoading s" and "st_isApiReady s"
    and "st_imageFile s = None"
    and "generateImage client remote (st_prompt s) log = (Inl err, log')"
    and "templateString (studioErrorMessage err) = Inr errorMessage"
  shows "map msg_text (st_messages (fst (handleSubmit browser client remote (s, log)))) =
         map msg_text (st_messages s) @
           [Some (st_prompt s),
            Some (str (''Sorry, I couldn'' @ [CHR 0x27] @ ''t generate the image. Error: '') @
                  errorMessage)]"
  using assms by (simp add: handleSubmit_def Let_def)

lemma handleSendMessage_rejected:
  assumes "trim (cb_currentMessage s) \<noteq> []" and "\<not> cb_isLoading s" and "cb_isApiReady s"
    and "cb_chat s = Some chat"
    and "remote (SendMessage chat (cb_currentMessage s)) = Inl err"
    and "chatErrorText err = Inr t"
  shows "map cm_text (cb_messages (fst (handleSendMessage remote (s, log)))) =
         map cm_text (cb_messages s) @ [Some (cb_currentMessage s), Some t]"
  using assms by (simp add: handleSendMessage_def Let_def callRemote_def)

text \<open>
  C1, as the code has it. Without a credential \<open>generateImage\<close> fails at once and
  issues no request, but the error it raises is a plain \<open>Error\<close> whose message contains
  "api key": the classifier gives it the category \<open>API_KEY_INVALID\<close>, not
  \<open>API_NOT_CONFIGURED\<close>.
\<close>

theorem not_configured_category_counterexample:
  "generateImage (ai None) imageRemote (str ''a cat'') [] =
     (Inl (newError msgNotConfigured), []) \<and>
   parseApiError (newError msgNotConfigured) =
     Inr (ApiError API_KEY_INVALID msgNotConfigured msgApiKeyInvalid) \<and>
   getProp (ApiError API_KEY_INVALID msgNotConfigured msgApiKeyInvalid) ''type'' =
     VStr (ErrorType_value API_KEY_INVALID) \<and>
   isErrorType (newError msgNotConfigured) API_NOT_CONFIGURED = Inr False"
  by code_simp

text \<open>
  C1, amended. When no API credential is configured, \<open>generateImage\<close> and
  \<open>editImage\<close> fail with the error "Gemini API key not configured. Please set the
  API_KEY environment variable." and leave the log of requests as it was: no request is
  issued. Classified by \<open>parseApiError\<close>, this error has the category
  \<open>API_KEY_INVALID\<close>.
\<close>

theorem not_configured_fails_fast:
  assumes "\<not> isApiKeyConfigured API_KEY"
  shows "generateImage (ai API_KEY) remote prompt log = (Inl (newError msgNotConfigured), log) \<and>
         editImage (ai API_KEY) remote prompt img log = (Inl (newError msgNotConfigured), log) \<and>
         parseApiError (newError msgNotConfigured) =
           Inr (ApiError API_KEY_INVALID msgNotConfigured msgApiKeyInvalid)"
proof -
  from assms have n: "ai API_KEY = None" by (simp add: isApiKeyConfigured_def)
  have "parseApiError (newError msgNotConfigured) =
           Inr (ApiError API_KEY_INVALID msgNotConfigured msgApiKeyInvalid)"
    by code_simp
  then show ?thesis by (simp add: n generateImage_def editImage_def ensureAi_def)
qed

theorem not_configured_fails_fast_witness:
  "\<not> isApiKeyConfigured None \<and>
   generateImage (ai None) imageRemote (str ''a cat'') [] = (Inl (newError msgNotConfigured), [])"
proof -
  have a: "\<not> isApiKeyConfigured None" by code_simp
  from not_configured_fails_fast [OF a] a show ?thesis by blast
qed

text \<open>
  C3, evaluated where the code departs from the claim. The remote service rejects the
  request with the error "429 Too Many Requests". The image studio appends the raw message
  of the error to its transcript; the classifier's message for the same error is the rate
  limit explanation, which is what the chatbot appends.
\<close>

theorem studio_shows_raw_error:
  "map msg_text (st_messages (fst (handleSubmit exampleBrowser (Some exampleClient) rejectingRemote
      (studioWithPrompt (str ''a cat''), [])))) =
     [Some (str ''a cat''),
      Some (str (''Sorry, I couldn'' @ [CHR 0x27] @
                 ''t generate the image. Error: 429 Too Many Requests''))] \<and>
   getUserFriendlyErrorMessage (newError (str ''429 Too Many Requests'')) = Inr (VStr msgRateLimit) \<and>
   map cm_text (cb_messages (fst (handleSendMessage rejectingRemote
      (chatbotWithMessage (str ''hello''), [])))) =
     [Some (str ''hello''), Some (crossMark @ str '' '' @ msgRateLimit)]"
proof (intro conjI)
  have t: "trim (str ''a cat'') \<noteq> []" by code_simp
  have g: "generateImage (Some exampleClient) rejectingRemote
             (st_prompt (studioWithPrompt (str ''a cat''))) [] =
        (Inl (newError (str ''429 Too Many Requests'')),
         [GenerateContent exampleClient
            \<lparr>req_model = str ''gemini-2.5-flash-image'',
             req_contents = PromptContents (str ''a cat''),
             req_responseModalities = [str ''IMAGE'']\<rparr>])"
    by (simp add: generateImage_def ensureAi_def callRemote_def rejectingRemote_def
        studioWithPrompt_def)
  have m: "templateString (studioErrorMessage (newError (str ''429 Too Many Requests''))) =
             Inr (str ''429 Too Many Requests'')"
    by (simp add: newError_def)
  have j: "str (''Sorry, I couldn'' @ [CHR 0x27] @ ''t generate the image. Error: '') @
           str ''429 Too Many Requests'' =
           str (''Sorry, I couldn'' @ [CHR 0x27] @
                ''t generate the image. Error: 429 Too Many Requests'')"
    by (simp add: str_def)
  from handleSubmit_rejected
         [where s = "studioWithPrompt (str ''a cat'')" and browser = exampleBrowser,
          OF _ _ _ _ g m] t
  show "map msg_text (st_messages (fst (handleSubmit exampleBrowser (Some exampleClient)
      rejectingRemote (studioWithPrompt (str ''a cat''), [])))) =
     [Some (str ''a cat''),
      Some (str (''Sorry, I couldn'' @ [CHR 0x27] @
                 ''t generate the image. Error: 429 Too Many Requests''))]"
    unfolding j [symmetric] by (simp add: studioWithPrompt_def)
next
  show f: "getUserFriendlyErrorMessage (newError (str ''429 Too Many Requests'')) =
             Inr (VStr msgRateLimit)"
    by code_simp
  have t: "trim (str ''hello'') \<noteq> []" by code_simp
  have r: "rejectingRemote
             (SendMessage \<lparr>chat_client = exampleClient, chat_model = str ''gemini-2.5-flash''\<rparr>
                (cb_currentMessage (chatbotWithMessage (str ''hello'')))) =
           Inl (newError (str ''429 Too Many Requests''))"
    by (simp add: rejectingRemote_def)
  have c: "chatErrorText (newError (str ''429 Too Many Requests'')) =
             Inr (crossMark @ str '' '' @ msgRateLimit)"
    by (simp add: chatErrorText_def f)
  from handleSendMessage_rejected
         [where s = "chatbotWithMessage (str ''hello'')" and remote = rejectingRemote
            and log = "[]", OF _ _ _ _ r c] t
  show "map cm_text (cb_messages (fst (handleSendMessage rejectingRemote
      (chatbotWithMessage (str ''hello''), [])))) =
     [Some (str ''hello''), Some (crossMark @ str '' '' @ msgRateLimit)]"
    by (simp add: chatbotWithMessage_def)
qed

text \<open>
  C9. When the prompt of the image studio, or the current message of the chatbot, is
  empty or made of white space only (any white space or line terminator of the language,
  not only the ASCII ones), the submit handler returns the state of the component and the
  log of requests unchanged: no request is issued and nothing is appended to the
  transcript.
\<close>

theorem blank_prompt_ignored:
  assumes "\<forall>c \<in> set (st_prompt s). isWhiteSpace c"
    and "\<forall>c \<in> set (cb_currentMessage b). isWhiteSpace c"
  shows "handleSubmit browser client remote (s, log) = (s, log) \<and>
         handleSendMessage remote' (b, log') = (b, log')"
  using assms by (simp add: handleSubmit_def handleSendMessage_def trim_blank)

theorem blank_prompt_ignored_witness:
  "handleSubmit exampleBrowser (Some exampleClient) imageRemote
     (studioWithPrompt (str [CHR '' '', CHR 0x09, CHR 0x0A] @ [noBreakSpace]), []) =
     (studioWithPrompt (str [CHR '' '', CHR 0x09, CHR 0x0A] @ [noBreakSpace]), []) \<and>
   handleSendMessage imageRemote
     (chatbotWithMessage [noBreakSpace, ideographicSpace, CodeUnit (CHR 0x00) (CHR '' '')], []) =
     (chatbotWithMessage [noBreakSpace, ideographicSpace, CodeUnit (CHR 0x00) (CHR '' '')], []) \<and>
   handleSendMessage imageRemote (chatbotWithMessage [], []) = (chatbotWithMessage [], [])"
proof -
  have a: "\<forall>c \<in> set (st_prompt (studioWithPrompt
             (str [CHR '' '', CHR 0x09, CHR 0x0A] @ [noBreakSpace]))). isWhiteSpace c"
    by code_simp
  have b: "\<forall>c \<in> set (cb_currentMessage (chatbotWithMessage
             [noBreakSpace, ideographicSpace, CodeUnit (CHR 0x00) (CHR '' '')])). isWhiteSpace c"
    by code_simp
  have c: "\<forall>c \<in> set (cb_currentMessage (chatbotWithMessage [])). isWhiteSpace c"
    by code_simp
  from blank_prompt_ignored [OF a b] blank_prompt_ignored [OF a c] show ?thesis by blast
qed

end
